theory Spec2Isabelle
  imports Main
begin

section \<open>Data model\<close>

text \<open>
  The records follow \<^verbatim>\<open>internal/models/account.go\<close>. Go strings are \<open>string\<close>,
  \<^verbatim>\<open>time.Time\<close> is an opaque instant (an \<open>int\<close>), a pointer that may be \<^verbatim>\<open>nil\<close> is an
  \<open>option\<close>. Every \<^verbatim>\<open>errors.New\<close> message of the service is one constructor of
  \<open>error\<close>. Field names that occur in more than one struct carry a prefix. The
  field \<^verbatim>\<open>Db\<close> of the repository inputs is the transaction of the running operation
  and is not repeated in the records; \<^verbatim>\<open>CreateAccountOutput\<close> is its only field, the id.
\<close>

type_synonym time = int

datatype error =
    FailToCreateTransaction       \<comment> \<open>\<^verbatim>\<open>fail to create transaction\<close>\<close>
  | FailToExchangeCode            \<comment> \<open>\<^verbatim>\<open>fail to exchange code\<close>\<close>
  | MissingScopes                 \<comment> \<open>\<^verbatim>\<open>missing scopes\<close>\<close>
  | FailToGetExternalUserData     \<comment> \<open>\<^verbatim>\<open>fail to get external user data\<close>\<close>
  | UnverifiedEmail               \<comment> \<open>\<^verbatim>\<open>unverified email\<close>\<close>
  | FailToGetRelatedAccounts      \<comment> \<open>\<^verbatim>\<open>fail to get related accounts\<close>\<close>
  | FailToRelateAccount           \<comment> \<open>\<^verbatim>\<open>fail to relate account\<close>\<close>
  | FailToCreateAccount           \<comment> \<open>\<^verbatim>\<open>fail to create account\<close>\<close>
  | FailToGenerateAuthOutput      \<comment> \<open>\<^verbatim>\<open>fail to generate auth output\<close>\<close>
  | FailToGetAccount              \<comment> \<open>\<^verbatim>\<open>fail to get account\<close>\<close>
  | FailToSendSms                 \<comment> \<open>\<^verbatim>\<open>fail to send sms\<close>\<close>
  | MagicLinkCodeDoesntExist      \<comment> \<open>\<^verbatim>\<open>magic link code doesn't exist\<close>\<close>
  | RefreshTokenDoesntExist       \<comment> \<open>\<^verbatim>\<open>refresh token doesn't exist\<close>\<close>
  | FailToGenerateAccessToken     \<comment> \<open>\<^verbatim>\<open>fail to generate access token\<close>\<close>

record GetManyAccountsByProviderOutput =
  AccountId :: string
  ProviderId :: string
  ProviderType :: string
  Email :: string

text \<open>The zero value of the struct, as \<^verbatim>\<open>new(models.GetManyAccountsByProviderOutput)\<close> allocates it.\<close>

definition zero_GetManyAccountsByProviderOutput :: GetManyAccountsByProviderOutput where
  "zero_GetManyAccountsByProviderOutput =
     \<lparr>AccountId = [], ProviderId = [], ProviderType = [], Email = []\<rparr>"

record CreateAccountSignInProvider =
  sip_Id :: string
  sip_Type :: string
  sip_AccessToken :: string
  sip_RefreshToken :: "string option"
  sip_ExpiresAt :: time

record CreateAccountPhone =
  CountryCode :: string
  Number :: string

record CreateAccountInput =
  cai_Email :: string
  cai_Phone :: CreateAccountPhone
  cai_SignInProviders :: "CreateAccountSignInProvider list"

record GetAccountByEmailOutput =
  gbe_AccountId :: string
  gbe_Email :: string

record GetAccountByPhoneOutput =
  gbp_AccountId :: string
  gbp_CountryCode :: string
  gbp_Number :: string

record AuthOutput =
  ao_RefreshToken :: string
  ao_AccessToken :: string
  ao_ExpiresAt :: time

record CreateAccountFromEmailInput =
  cfe_Email :: string

record CreateAccountFromPhoneInput =
  cfp_Phone :: CreateAccountPhone

record CreateAccountFromExternalProviderInput =
  Code :: string
  OriginUrl :: string

record ExchangeAccountCodeInput =
  eci_AccountId :: string
  eci_Code :: string

record RefreshAccountTokenInput =
  rti_AccountId :: string
  rti_RefreshToken :: string

record RefreshAccountTokenOutput =
  rto_AccessToken :: string
  rto_ExpiresAt :: time

section \<open>Account linking: the scan of \<^verbatim>\<open>createFromExternal\<close>\<close>

text \<open>
  \<^verbatim>\<open>sameEmail\<close> and \<^verbatim>\<open>sameProvider\<close> are pointers, and the loop stores \<^verbatim>\<open>&v\<close>, the address
  of the loop variable, in them. The embedding keeps an explicit heap of struct cells:
  cell 0 and cell 1 are the two structs allocated by \<^verbatim>\<open>new\<close>, the loop variable lives
  from cell 2 on. Before Go 1.22 a \<^verbatim>\<open>range\<close> loop has one variable for the whole loop,
  from Go 1.22 on one per iteration; the module file is not part of the sources, so the
  scan takes the rule as a parameter.
\<close>

datatype loopvar = PerLoop | PerIteration

type_synonym addr = nat

record scan_state =
  heap :: "addr \<rightharpoonup> GetManyAccountsByProviderOutput"
  sameEmail :: "addr option"
  sameProvider :: "addr option"
  visited :: nat   \<comment> \<open>loop iterations run so far (not in the source; used to state claims)\<close>

fun v_addr :: "loopvar \<Rightarrow> nat \<Rightarrow> addr" where
  "v_addr PerLoop k = 2"
| "v_addr PerIteration k = 2 + k"

text \<open>The state after \<^verbatim>\<open>sameEmail := new(...)\<close> and \<^verbatim>\<open>sameProvider := new(...)\<close>.\<close>

definition scan_init :: scan_state where
  "scan_init =
     \<lparr>heap = [0 \<mapsto> zero_GetManyAccountsByProviderOutput,
              1 \<mapsto> zero_GetManyAccountsByProviderOutput],
      sameEmail = Some 0, sameProvider = Some 1, visited = 0\<rparr>"

text \<open>
  One iteration of \<^verbatim>\<open>for _, v := range relatedAccounts\<close>: the element is copied into
  the loop variable, then the two tests run in the order of the source.
\<close>

definition scan_body ::
  "loopvar \<Rightarrow> string \<Rightarrow> string \<Rightarrow> string \<Rightarrow> GetManyAccountsByProviderOutput \<Rightarrow>
   scan_state \<Rightarrow> scan_state" where
  "scan_body lv email pid ptype x s =
     (let a = v_addr lv (visited s);
          s1 = s\<lparr>heap := (heap s)(a \<mapsto> x), visited := Suc (visited s)\<rparr>;
          s2 = (if Email x = email then s1\<lparr>sameEmail := Some a\<rparr> else s1);
          s3 = (if ProviderId x = pid \<and> ProviderType x = ptype
                then s2\<lparr>sameProvider := Some a\<rparr> else s2)
      in s3)"

fun scan ::
  "loopvar \<Rightarrow> string \<Rightarrow> string \<Rightarrow> string \<Rightarrow> GetManyAccountsByProviderOutput list \<Rightarrow>
   scan_state \<Rightarrow> scan_state" where
  "scan lv email pid ptype [] s = s"
| "scan lv email pid ptype (x # xs) s =
     (let s' = scan_body lv email pid ptype x s
      in if sameEmail s' \<noteq> None \<and> sameProvider s' \<noteq> None then s'   \<comment> \<open>\<^verbatim>\<open>break\<close>\<close>
         else scan lv email pid ptype xs s')"

text \<open>Reading a field through a pointer; \<open>None\<close> is the nil-pointer panic.\<close>

definition deref :: "scan_state \<Rightarrow> addr option \<Rightarrow> GetManyAccountsByProviderOutput option" where
  "deref s p = (case p of None \<Rightarrow> None | Some a \<Rightarrow> heap s a)"

datatype 'a outcome = Panic | Return 'a

text \<open>
  The branch \<^verbatim>\<open>len(relatedAccounts) > 0\<close>: the scan, then the two assignments to
  \<^verbatim>\<open>accountId\<close> in the order of the source, then the test for the empty string.
  \<^verbatim>\<open>&&\<close> evaluates left to right and stops early, so each dereference is guarded
  by the nil test before it.
\<close>

definition relate ::
  "loopvar \<Rightarrow> string \<Rightarrow> string \<Rightarrow> string \<Rightarrow> GetManyAccountsByProviderOutput list \<Rightarrow>
   (error + string) outcome" where
  "relate lv email pid ptype relatedAccounts =
     (let s = scan lv email pid ptype relatedAccounts scan_init;
          accountId1 =
            (if sameEmail s \<noteq> None \<and> sameProvider s = None
             then (case deref s (sameEmail s) of
                     None \<Rightarrow> Panic
                   | Some e \<Rightarrow> Return (if ProviderType e \<noteq> ptype then AccountId e else []))
             else Return []);
          accountId2 =
            (case accountId1 of
               Panic \<Rightarrow> Panic
             | Return a1 \<Rightarrow>
                 (if sameProvider s \<noteq> None
                  then (case deref s (sameProvider s) of
                          None \<Rightarrow> Panic
                        | Some p \<Rightarrow> Return (AccountId p))
                  else Return a1))
      in case accountId2 of
           Panic \<Rightarrow> Panic
         | Return a \<Rightarrow> Return (if a = [] then Inl FailToRelateAccount else Inr a))"

section \<open>Collaborators of the service\<close>

text \<open>
  The package \<^verbatim>\<open>adapters\<close> and the refresh-token and magic-link models are not among
  the sources; the records below hold exactly the fields that \<^verbatim>\<open>AccountService\<close> reads
  or writes. A call that returns \<^verbatim>\<open>(value, error)\<close> is a function into \<open>option\<close>:
  \<open>None\<close> is a non-nil error.
\<close>

record ExchangeCodeOutput =
  eco_AccessToken :: string
  eco_RefreshToken :: string
  eco_ExpiresAt :: time
  eco_Scopes :: "string list"

record GetUserDataOutput =
  ud_Id :: string
  ud_Email :: string
  ud_IsEmailVerified :: bool

record SignInProviderAdapter =
  spa_ExchangeCode :: "string \<Rightarrow> string \<Rightarrow> ExchangeCodeOutput option"
  spa_HasRequiredScopes :: "string list \<Rightarrow> bool"
  spa_GetUserData :: "string \<Rightarrow> GetUserDataOutput option"

record GenAccessOutput =
  gao_AccessToken :: string
  gao_ExpiresAt :: time

record CreateRefreshTokenOutput =
  crt_RefreshToken :: string

record MagicLinkCode =
  mlc_Code :: string
  mlc_IsFirstAccess :: bool

text \<open>A \<^verbatim>\<open>*sql.Tx\<close> is \<open>Some Tx\<close>, or \<open>None\<close> for the nil pointer.\<close>

datatype sql_Tx = Tx

text \<open>The calls the service makes on its collaborators; the world keeps them in order.\<close>

datatype call =
    Call_Begin | Call_Commit | Call_Rollback
  | Call_ExchangeCode | Call_HasRequiredScopes | Call_GetUserData
  | Call_GetManyByProvider | Call_AccountCreate | Call_GetByEmail | Call_GetByPhone
  | Call_MagicLinkUpsert | Call_MagicLinkGet
  | Call_RefreshTokenGet | Call_RefreshTokenCreate
  | Call_GenAccess
  | Call_SendVerificationCodeEmail | Call_SendVerificationCodeSms

text \<open>
  The struct \<^verbatim>\<open>AccountService\<close>. The adapters are the functions they offer. The
  database and the three repositories are interfaces whose implementations are not among
  the sources: their contents are in the \<open>world\<close> below, and the service record says
  which of their calls return an error in this run (\<open>store_fails\<close>, \<open>begin_fails\<close>),
  which identifiers they hand out, and whether the magic-link repository removes a code
  when \<^verbatim>\<open>Get\<close> returns it (\<open>get_consumes\<close>).
\<close>

record AccountService =
  GoogleAdapter :: SignInProviderAdapter
  FacebookAdapter :: SignInProviderAdapter
  TokenAdapter :: "string \<Rightarrow> GenAccessOutput option"
  EmailAdapter :: "string \<Rightarrow> string \<Rightarrow> bool"
  SmsAdapter :: "string \<Rightarrow> string \<Rightarrow> bool"
  begin_fails :: bool
  store_fails :: "call \<Rightarrow> bool"
  new_account_id :: string
  new_code :: string
  get_consumes :: bool
  RefreshTokenRepository_Create :: "sql_Tx option \<Rightarrow> string \<Rightarrow> CreateRefreshTokenOutput option"

record genAuthOutputInput =
  gai_db :: "sql_Tx option"
  gai_accountId :: string
  gai_isFirstAccess :: bool
  gai_refresh :: bool

record createFromExternalProviderInput =
  ext_db :: "sql_Tx option"
  ext_providerService :: SignInProviderAdapter
  ext_providerType :: string
  ext_code :: string
  ext_originUrl :: string

section \<open>The stores and the transaction\<close>

text \<open>
  Modelled from the spec: the account store, the refresh-token store, the magic-link
  store and the transaction (sections 3, 5 and 6 of the specification); their
  implementations are not among the sources. An account has a unique id, an
  optional email and an optional phone; a sign-in identity is the row that
  \<^verbatim>\<open>GetManyByProvider\<close> returns; a magic-link code is kept per account (upsert
  overwrites); a refresh token is a pair of account id and token value.
  Expiry of a magic-link code needs a clock and is left to the
  store: an expired code is one the store no longer holds.
\<close>

record Account =
  acc_Id :: string
  acc_Email :: "string option"
  acc_Phone :: "CreateAccountPhone option"

record store =
  accounts :: "Account list"
  identities :: "GetManyAccountsByProviderOutput list"
  magic_links :: "(string \<times> MagicLinkCode) list"
  refresh_tokens :: "(string \<times> string) list"

datatype tx_status = Open | Committed | RolledBack

text \<open>
  Modelled from the spec: writes under an uncommitted transaction are invisible to
  other lookups (section 5). \<open>committed\<close> is what a lookup outside the transaction
  sees, \<open>working\<close> is the view inside the transaction, \<open>tx\<close> the state of the
  transaction of the running operation (\<open>None\<close>: none was begun), \<open>calls\<close> the
  collaborator calls made so far, oldest first.
\<close>

record world =
  committed :: store
  working :: store
  tx :: "tx_status option"
  calls :: "call list"

definition log_call :: "call \<Rightarrow> world \<Rightarrow> world" where
  "log_call c w = w\<lparr>calls := calls w @ [c]\<rparr>"

text \<open>\<^verbatim>\<open>serv.Db.Begin()\<close>.\<close>

definition Db_Begin :: "AccountService \<Rightarrow> world \<Rightarrow> sql_Tx option \<times> world" where
  "Db_Begin serv w =
     (let w1 = log_call Call_Begin w
      in if begin_fails serv then (None, w1)
         else (Some Tx, w1\<lparr>working := committed w1, tx := Some Open\<rparr>))"

text \<open>
  \<^verbatim>\<open>tx.Commit()\<close> and \<^verbatim>\<open>tx.Rollback()\<close> on a non-nil handle, as \<^verbatim>\<open>database/sql\<close>
  documents them: on a transaction that is already finished they change nothing (they
  return \<^verbatim>\<open>ErrTxDone\<close>, which the service ignores).
\<close>

definition Tx_Commit :: "world \<Rightarrow> world" where
  "Tx_Commit w =
     (let w1 = log_call Call_Commit w
      in if tx w1 = Some Open then w1\<lparr>committed := working w1, tx := Some Committed\<rparr> else w1)"

definition Tx_Rollback :: "world \<Rightarrow> world" where
  "Tx_Rollback w =
     (let w1 = log_call Call_Rollback w
      in if tx w1 = Some Open then w1\<lparr>working := committed w1, tx := Some RolledBack\<rparr> else w1)"

text \<open>
  The pair of lines \<^verbatim>\<open>db.Rollback(); return nil, errors.New(...)\<close> that ends every
  failure path. A method call through a nil \<^verbatim>\<open>*sql.Tx\<close> panics.
\<close>

definition rollback_return ::
  "sql_Tx option \<Rightarrow> error \<Rightarrow> world \<Rightarrow> (error + 'a) outcome \<times> world" where
  "rollback_return h e w =
     (case h of None \<Rightarrow> (Panic, w) | Some _ \<Rightarrow> (Return (Inl e), Tx_Rollback w))"

definition opt_string :: "string \<Rightarrow> string option" where
  "opt_string s = (if s = [] then None else Some s)"

definition opt_phone :: "CreateAccountPhone \<Rightarrow> CreateAccountPhone option" where
  "opt_phone p = (if CountryCode p = [] \<and> Number p = [] then None else Some p)"

text \<open>
  Modelled from the spec: \<^verbatim>\<open>create(email?, phone?, identities[]) -> accountId\<close>, one
  call that stores the account and its identities together.
\<close>

definition AccountRepository_Create ::
  "AccountService \<Rightarrow> CreateAccountInput \<Rightarrow> world \<Rightarrow> string option \<times> world" where
  "AccountRepository_Create serv i w =
     (let w1 = log_call Call_AccountCreate w
      in if store_fails serv Call_AccountCreate then (None, w1)
         else
           (Some (new_account_id serv),
            w1\<lparr>working := (working w1)
              \<lparr>accounts := accounts (working w1) @
                 [\<lparr>acc_Id = new_account_id serv, acc_Email = opt_string (cai_Email i),
                   acc_Phone = opt_phone (cai_Phone i)\<rparr>],
               identities := identities (working w1) @
                 map (\<lambda>p. \<lparr>AccountId = new_account_id serv, ProviderId = sip_Id p,
                            ProviderType = sip_Type p, Email = cai_Email i\<rparr>)
                   (cai_SignInProviders i)\<rparr>\<rparr>))"

text \<open>
  Modelled from the spec: \<^verbatim>\<open>getManyByProvider(providerId, providerType, email)\<close>, the
  identities that share the provider id and type, or the email.
\<close>

definition AccountRepository_GetManyByProvider ::
  "AccountService \<Rightarrow> string \<Rightarrow> string \<Rightarrow> string \<Rightarrow> world \<Rightarrow>
   GetManyAccountsByProviderOutput list option \<times> world" where
  "AccountRepository_GetManyByProvider serv pid ptype email w =
     (let w1 = log_call Call_GetManyByProvider w
      in if store_fails serv Call_GetManyByProvider then (None, w1)
         else (Some (filter (\<lambda>x. (ProviderId x = pid \<and> ProviderType x = ptype) \<or> Email x = email)
                        (identities (working w1))), w1))"

text \<open>Modelled from the spec: \<^verbatim>\<open>getByEmail(email) -> account|absent\<close>.\<close>

definition AccountRepository_GetByEmail ::
  "AccountService \<Rightarrow> string \<Rightarrow> world \<Rightarrow> GetAccountByEmailOutput option option \<times> world" where
  "AccountRepository_GetByEmail serv email w =
     (let w1 = log_call Call_GetByEmail w
      in if store_fails serv Call_GetByEmail then (None, w1)
         else (Some (case find (\<lambda>a. acc_Email a = Some email) (accounts (working w1)) of
                       None \<Rightarrow> None
                     | Some a \<Rightarrow> Some \<lparr>gbe_AccountId = acc_Id a, gbe_Email = email\<rparr>), w1))"

text \<open>Modelled from the spec: \<^verbatim>\<open>getByPhone(country, number) -> account|absent\<close>.\<close>

definition AccountRepository_GetByPhone ::
  "AccountService \<Rightarrow> string \<Rightarrow> string \<Rightarrow> world \<Rightarrow> GetAccountByPhoneOutput option option \<times> world" where
  "AccountRepository_GetByPhone serv cc num w =
     (let w1 = log_call Call_GetByPhone w
      in if store_fails serv Call_GetByPhone then (None, w1)
         else (Some (case find (\<lambda>a. acc_Phone a = Some \<lparr>CountryCode = cc, Number = num\<rparr>)
                              (accounts (working w1)) of
                       None \<Rightarrow> None
                     | Some a \<Rightarrow> Some \<lparr>gbp_AccountId = acc_Id a, gbp_CountryCode = cc,
                                       gbp_Number = num\<rparr>), w1))"

text \<open>
  Modelled from the spec: \<^verbatim>\<open>upsert(accountId, isFirstAccess) -> {code, isFirstAccess}\<close>;
  the code of the account is created or overwritten.
\<close>

definition MagicLinkCodeRepository_Upsert ::
  "AccountService \<Rightarrow> string \<Rightarrow> bool \<Rightarrow> world \<Rightarrow> MagicLinkCode option \<times> world" where
  "MagicLinkCodeRepository_Upsert serv aid first w =
     (let w1 = log_call Call_MagicLinkUpsert w;
          c = \<lparr>mlc_Code = new_code serv, mlc_IsFirstAccess = first\<rparr>
      in if store_fails serv Call_MagicLinkUpsert then (None, w1)
         else (Some c,
               w1\<lparr>working := (working w1)
                 \<lparr>magic_links := (aid, c) # filter (\<lambda>kv. fst kv \<noteq> aid) (magic_links (working w1))\<rparr>\<rparr>))"

text \<open>
  Modelled from the spec: \<^verbatim>\<open>get(accountId, code) -> record|absent\<close> of the magic-link
  repository, whose implementation is not among the sources. The specification lists
  the call as a lookup (section 6) and says that a code is consumed exactly once by
  exchange (sections 3 and 4.4), and \<^verbatim>\<open>Get\<close> is the only magic-link call that
  \<^verbatim>\<open>ExchangeCode\<close> makes. So both repositories are modelled: with \<open>get_consumes\<close> the
  call removes the code of the account from the view of the transaction when it
  returns it, without \<open>get_consumes\<close> it only reads.
\<close>

definition MagicLinkCodeRepository_Get ::
  "AccountService \<Rightarrow> string \<Rightarrow> string \<Rightarrow> world \<Rightarrow> MagicLinkCode option option \<times> world" where
  "MagicLinkCodeRepository_Get serv aid c w =
     (let w1 = log_call Call_MagicLinkGet w
      in if store_fails serv Call_MagicLinkGet then (None, w1)
         else
           (case find (\<lambda>kv. fst kv = aid \<and> mlc_Code (snd kv) = c)
                   (magic_links (working w1)) of
              None \<Rightarrow> (Some None, w1)
            | Some kv \<Rightarrow>
                (Some (Some (snd kv)),
                 if get_consumes serv
                 then w1\<lparr>working := (working w1)
                        \<lparr>magic_links :=
                           filter (\<lambda>kv. fst kv \<noteq> aid) (magic_links (working w1))\<rparr>\<rparr>
                 else w1)))"

text \<open>Modelled from the spec: \<^verbatim>\<open>exists(accountId, token) -> bool\<close>.\<close>

definition RefreshTokenRepository_Get ::
  "AccountService \<Rightarrow> string \<Rightarrow> string \<Rightarrow> world \<Rightarrow> bool option \<times> world" where
  "RefreshTokenRepository_Get serv aid t w =
     (let w1 = log_call Call_RefreshTokenGet w
      in if store_fails serv Call_RefreshTokenGet then (None, w1)
         else (Some ((aid, t) \<in> set (refresh_tokens (working w1))), w1))"

section \<open>The operations of \<^verbatim>\<open>AccountService\<close>\<close>

text \<open>
  Each operation takes the world and returns its result with the world after it.
  \<^verbatim>\<open>createFromExternal\<close> and \<^verbatim>\<open>ExchangeCode\<close> end with
  \<^verbatim>\<open>return serv.genAuthOutput(...)\<close>: their embedding returns, on that path, the
  argument record of this last call (\<open>Inr\<close>); what the call then does is the
  transition system of the next section.
\<close>

definition createFromExternal ::
  "loopvar \<Rightarrow> AccountService \<Rightarrow> createFromExternalProviderInput \<Rightarrow> world \<Rightarrow>
   (error + genAuthOutputInput) outcome \<times> world" where
  "createFromExternal lv serv i w =
     (let w1 = log_call Call_ExchangeCode w
      in case spa_ExchangeCode (ext_providerService i) (ext_code i) (ext_originUrl i) of
           None \<Rightarrow> rollback_return (ext_db i) FailToExchangeCode w1
         | Some exchangeCode \<Rightarrow>
      (let w2 = log_call Call_HasRequiredScopes w1
       in if \<not> spa_HasRequiredScopes (ext_providerService i) (eco_Scopes exchangeCode)
          then rollback_return (ext_db i) MissingScopes w2
          else
      (let w3 = log_call Call_GetUserData w2
       in case spa_GetUserData (ext_providerService i) (eco_AccessToken exchangeCode) of
            None \<Rightarrow> rollback_return (ext_db i) FailToGetExternalUserData w3
          | Some providerData \<Rightarrow>
      if \<not> ud_IsEmailVerified providerData
      then rollback_return (ext_db i) UnverifiedEmail w3
      else
      (case AccountRepository_GetManyByProvider serv (ud_Id providerData)
              (ext_providerType i) (ud_Email providerData) w3 of
         (None, w4) \<Rightarrow> rollback_return (ext_db i) FailToGetRelatedAccounts w4
       | (Some relatedAccounts, w4) \<Rightarrow>
      if length relatedAccounts > 0
      then
        (case relate lv (ud_Email providerData) (ud_Id providerData)
                (ext_providerType i) relatedAccounts of
           Panic \<Rightarrow> (Panic, w4)
         | Return (Inl e) \<Rightarrow> rollback_return (ext_db i) e w4
         | Return (Inr accountId) \<Rightarrow>
             (Return (Inr \<lparr>gai_db = None, gai_accountId = accountId,
                            gai_isFirstAccess = False, gai_refresh = True\<rparr>), w4))
      else
        (case AccountRepository_Create serv
                \<lparr>cai_Email = ud_Email providerData,
                 cai_Phone = \<lparr>CountryCode = [], Number = []\<rparr>,
                 cai_SignInProviders =
                   [\<lparr>sip_Id = ud_Id providerData, sip_Type = ext_providerType i,
                     sip_AccessToken = eco_AccessToken exchangeCode,
                     sip_RefreshToken = Some (eco_RefreshToken exchangeCode),
                     sip_ExpiresAt = eco_ExpiresAt exchangeCode\<rparr>]\<rparr> w4 of
           (None, w5) \<Rightarrow> rollback_return (ext_db i) FailToCreateAccount w5
         | (Some result, w5) \<Rightarrow>
             (Return (Inr \<lparr>gai_db = None, gai_accountId = result,
                            gai_isFirstAccess = True, gai_refresh = True\<rparr>), w5))))))"

definition CreateFromGoogleProvider ::
  "loopvar \<Rightarrow> AccountService \<Rightarrow> CreateAccountFromExternalProviderInput \<Rightarrow> world \<Rightarrow>
   (error + genAuthOutputInput) outcome \<times> world" where
  "CreateFromGoogleProvider lv serv i w =
     (case Db_Begin serv w of
        (None, w1) \<Rightarrow> (Return (Inl FailToCreateTransaction), w1)
      | (Some h, w1) \<Rightarrow>
          createFromExternal lv serv
            \<lparr>ext_db = Some h, ext_providerService = GoogleAdapter serv,
             ext_providerType = ''GOOGLE'', ext_code = Code i, ext_originUrl = OriginUrl i\<rparr> w1)"

definition CreateFromFacebookProvider ::
  "loopvar \<Rightarrow> AccountService \<Rightarrow> CreateAccountFromExternalProviderInput \<Rightarrow> world \<Rightarrow>
   (error + genAuthOutputInput) outcome \<times> world" where
  "CreateFromFacebookProvider lv serv i w =
     (case Db_Begin serv w of
        (None, w1) \<Rightarrow> (Return (Inl FailToCreateTransaction), w1)
      | (Some h, w1) \<Rightarrow>
          createFromExternal lv serv
            \<lparr>ext_db = Some h, ext_providerService = FacebookAdapter serv,
             ext_providerType = ''FACEBOOK'', ext_code = Code i, ext_originUrl = OriginUrl i\<rparr> w1)"

text \<open>
  In the two passwordless operations the block
  \<^verbatim>\<open>if existentAccount == nil { ...Create... } else { ... }\<close> either returns early or
  sets \<^verbatim>\<open>accountId\<close> and \<^verbatim>\<open>isFirstAccess\<close>; the inner \<open>case\<close> computes that pair
  (\<open>None\<close>: the early return after a failed \<^verbatim>\<open>Create\<close>).
\<close>

definition CreateFromEmailProvider ::
  "AccountService \<Rightarrow> CreateAccountFromEmailInput \<Rightarrow> world \<Rightarrow> (error + unit) outcome \<times> world" where
  "CreateFromEmailProvider serv i w =
     (case Db_Begin serv w of
        (None, w1) \<Rightarrow> (Return (Inl FailToCreateTransaction), w1)
      | (Some h, w1) \<Rightarrow>
     (case AccountRepository_GetByEmail serv (cfe_Email i) w1 of
        (None, w2) \<Rightarrow> rollback_return (Some h) FailToGetAccount w2
      | (Some existentAccount, w2) \<Rightarrow>
     (case (case existentAccount of
              None \<Rightarrow>
                (case AccountRepository_Create serv
                        \<lparr>cai_Email = cfe_Email i,
                         cai_Phone = \<lparr>CountryCode = [], Number = []\<rparr>,
                         cai_SignInProviders = []\<rparr> w2 of
                   (None, w3) \<Rightarrow> (None, w3)
                 | (Some createdAccount, w3) \<Rightarrow> (Some (createdAccount, True), w3))
            | Some a \<Rightarrow> (Some (gbe_AccountId a, False), w2)) of
        (None, w3) \<Rightarrow> rollback_return (Some h) FailToCreateAccount w3
      | (Some (accountId, isFirstAccess), w3) \<Rightarrow>
     (case MagicLinkCodeRepository_Upsert serv accountId isFirstAccess w3 of
        (None, w4) \<Rightarrow> rollback_return (Some h) FailToCreateAccount w4
      | (Some magicLinkCode, w4) \<Rightarrow>
     (let w5 = log_call Call_SendVerificationCodeEmail w4
      in if \<not> EmailAdapter serv (cfe_Email i) (mlc_Code magicLinkCode)
         then rollback_return (Some h) FailToSendSms w5
         else (Return (Inr ()), Tx_Commit w5))))))"

definition CreateFromPhoneProvider ::
  "AccountService \<Rightarrow> CreateAccountFromPhoneInput \<Rightarrow> world \<Rightarrow> (error + unit) outcome \<times> world" where
  "CreateFromPhoneProvider serv i w =
     (case Db_Begin serv w of
        (None, w1) \<Rightarrow> (Return (Inl FailToCreateTransaction), w1)
      | (Some h, w1) \<Rightarrow>
     (case AccountRepository_GetByPhone serv (CountryCode (cfp_Phone i))
             (Number (cfp_Phone i)) w1 of
        (None, w2) \<Rightarrow> rollback_return (Some h) FailToGetAccount w2
      | (Some existentAccount, w2) \<Rightarrow>
     (case (case existentAccount of
              None \<Rightarrow>
                (case AccountRepository_Create serv
                        \<lparr>cai_Email = [], cai_Phone = cfp_Phone i,
                         cai_SignInProviders = []\<rparr> w2 of
                   (None, w3) \<Rightarrow> (None, w3)
                 | (Some createdAccount, w3) \<Rightarrow> (Some (createdAccount, True), w3))
            | Some a \<Rightarrow> (Some (gbp_AccountId a, False), w2)) of
        (None, w3) \<Rightarrow> rollback_return (Some h) FailToCreateAccount w3
      | (Some (accountId, isFirstAccess), w3) \<Rightarrow>
     (case MagicLinkCodeRepository_Upsert serv accountId isFirstAccess w3 of
        (None, w4) \<Rightarrow> rollback_return (Some h) FailToCreateAccount w4
      | (Some magicLinkCode, w4) \<Rightarrow>
     (let w5 = log_call Call_SendVerificationCodeSms w4
      in if \<not> SmsAdapter serv (CountryCode (cfp_Phone i) @ Number (cfp_Phone i))
                 (mlc_Code magicLinkCode)
         then rollback_return (Some h) FailToSendSms w5
         else (Return (Inr ()), Tx_Commit w5))))))"

text \<open>
  \<^verbatim>\<open>ExchangeCode\<close> commits its transaction and then passes the same handle on to
  \<^verbatim>\<open>genAuthOutput\<close>.
\<close>

definition ExchangeCode ::
  "AccountService \<Rightarrow> ExchangeAccountCodeInput \<Rightarrow> world \<Rightarrow>
   (error + genAuthOutputInput) outcome \<times> world" where
  "ExchangeCode serv i w =
     (case Db_Begin serv w of
        (None, w1) \<Rightarrow> (Return (Inl FailToCreateTransaction), w1)
      | (Some h, w1) \<Rightarrow>
     (case MagicLinkCodeRepository_Get serv (eci_AccountId i) (eci_Code i) w1 of
        (None, w2) \<Rightarrow> rollback_return (Some h) FailToGetAccount w2
      | (Some None, w2) \<Rightarrow> rollback_return (Some h) MagicLinkCodeDoesntExist w2
      | (Some (Some magicLinkCode), w2) \<Rightarrow>
          (Return (Inr \<lparr>gai_db = Some h, gai_accountId = eci_AccountId i,
                         gai_isFirstAccess = mlc_IsFirstAccess magicLinkCode,
                         gai_refresh = True\<rparr>),
           Tx_Commit w2)))"

definition RefreshToken ::
  "AccountService \<Rightarrow> RefreshAccountTokenInput \<Rightarrow> world \<Rightarrow>
   (error + RefreshAccountTokenOutput) outcome \<times> world" where
  "RefreshToken serv i w =
     (case Db_Begin serv w of
        (None, w1) \<Rightarrow> (Return (Inl FailToCreateTransaction), w1)
      | (Some h, w1) \<Rightarrow>
     (case RefreshTokenRepository_Get serv (rti_AccountId i) (rti_RefreshToken i) w1 of
        (None, w2) \<Rightarrow> rollback_return (Some h) FailToGetAccount w2
      | (Some refreshToken, w2) \<Rightarrow>
     if \<not> refreshToken then rollback_return (Some h) RefreshTokenDoesntExist w2
     else
     (let w3 = log_call Call_GenAccess w2
      in case TokenAdapter serv (rti_AccountId i) of
           None \<Rightarrow> rollback_return (Some h) FailToGenerateAccessToken w3
         | Some accessToken \<Rightarrow>
             (Return (Inr \<lparr>rto_AccessToken = gao_AccessToken accessToken,
                            rto_ExpiresAt = gao_ExpiresAt accessToken\<rparr>),
              Tx_Commit w3))))"

section \<open>Credential issuance: \<^verbatim>\<open>genAuthOutput\<close>\<close>

text \<open>
  \<^verbatim>\<open>genAuthOutput\<close> starts up to two goroutines and waits for them on a
  \<^verbatim>\<open>sync.WaitGroup\<close>, so it is a transition system over the state below: the place of
  the calling goroutine in the function, the counter of the wait group, the number of
  \<^verbatim>\<open>defer wg.Done()\<close> registered so far (a deferred call runs when the surrounding
  function returns), the state of each started goroutine, and the variables
  \<^verbatim>\<open>refreshToken\<close>, \<^verbatim>\<open>accessToken\<close> and \<^verbatim>\<open>err\<close> that the goroutines share with the
  caller (\<open>err\<close> is true when the variable is non-nil).
\<close>

datatype pc =
    AtIfRefresh     \<comment> \<open>before \<^verbatim>\<open>if i.refresh\<close>\<close>
  | AtAddAccess     \<comment> \<open>before the second \<^verbatim>\<open>wg.Add(1)\<close>\<close>
  | AtWait          \<comment> \<open>in \<^verbatim>\<open>wg.Wait()\<close>\<close>
  | AtJoin          \<comment> \<open>after \<^verbatim>\<open>wg.Wait()\<close> has returned\<close>
  | Returned

datatype task = NotStarted | Running | Finished

record gen_state =
  pc :: pc
  wg :: int
  deferred :: nat
  refresh_task :: task
  access_task :: task
  refreshToken :: "CreateRefreshTokenOutput option"
  accessToken :: "GenAccessOutput option"
  err :: bool
  g_world :: world
  result :: "(error + AuthOutput) outcome option"

definition gen_init :: "world \<Rightarrow> gen_state" where
  "gen_init w =
     \<lparr>pc = AtIfRefresh, wg = 0, deferred = 0, refresh_task = NotStarted,
      access_task = NotStarted, refreshToken = None, accessToken = None, err = False,
      g_world = w, result = None\<rparr>"

text \<open>
  The lines after \<^verbatim>\<open>wg.Wait()\<close>: roll back and fail when \<^verbatim>\<open>err\<close> is set, else commit
  and build the output from the two pointers. A method call through a nil
  \<^verbatim>\<open>*sql.Tx\<close> and a field read through a nil pointer panic.
\<close>

definition genAuthOutput_join ::
  "genAuthOutputInput \<Rightarrow> gen_state \<Rightarrow> (error + AuthOutput) outcome \<times> world" where
  "genAuthOutput_join i s =
     (if err s then rollback_return (gai_db i) FailToGenerateAuthOutput (g_world s)
      else
        (case gai_db i of
           None \<Rightarrow> (Panic, g_world s)
         | Some _ \<Rightarrow>
             (let w1 = Tx_Commit (g_world s)
              in case accessToken s of
                   None \<Rightarrow> (Panic, w1)
                 | Some a \<Rightarrow>
                     (case refreshToken s of
                        None \<Rightarrow> (Panic, w1)
                      | Some r \<Rightarrow>
                          (Return (Inr \<lparr>ao_RefreshToken = crt_RefreshToken r,
                                         ao_AccessToken = gao_AccessToken a,
                                         ao_ExpiresAt = gao_ExpiresAt a\<rparr>), w1)))))"

text \<open>
  The steps of the calling goroutine. \<^verbatim>\<open>wg.Wait()\<close> returns only when the counter is
  zero; until then the caller has no step. On return the deferred \<^verbatim>\<open>wg.Done()\<close> calls
  run, and a counter that goes below zero panics.
\<close>

definition caller_steps :: "genAuthOutputInput \<Rightarrow> gen_state \<Rightarrow> gen_state list" where
  "caller_steps i s =
     (case pc s of
        AtIfRefresh \<Rightarrow>
          [if gai_refresh i
           then s\<lparr>pc := AtAddAccess, wg := wg s + 1, deferred := Suc (deferred s),
                  refresh_task := Running\<rparr>
           else s\<lparr>pc := AtAddAccess\<rparr>]
      | AtAddAccess \<Rightarrow>
          [s\<lparr>pc := AtWait, wg := wg s + 1, deferred := Suc (deferred s),
             access_task := Running\<rparr>]
      | AtWait \<Rightarrow> (if wg s = 0 then [s\<lparr>pc := AtJoin\<rparr>] else [])
      | AtJoin \<Rightarrow>
          [let r = genAuthOutput_join i s;
               n = wg s - int (deferred s)
           in s\<lparr>pc := Returned, wg := n, deferred := 0, g_world := snd r,
                 result := Some (if n < 0 then Panic else fst r)\<rparr>]
      | Returned \<Rightarrow> [])"

text \<open>
  The goroutine \<^verbatim>\<open>refreshToken, err = serv.RefreshTokenRepository.Create(...)\<close>: it
  assigns both variables and ends. It never touches the wait group. What the store
  does with the handle it gets here (nil after \<^verbatim>\<open>createFromExternal\<close>, already
  committed after \<^verbatim>\<open>ExchangeCode\<close>) is up to the repository: the result of the call
  is a parameter of the service, and the row it may write is not tracked.
\<close>

definition refresh_steps ::
  "AccountService \<Rightarrow> genAuthOutputInput \<Rightarrow> gen_state \<Rightarrow> gen_state list" where
  "refresh_steps serv i s =
     (if refresh_task s = Running
      then [let r = RefreshTokenRepository_Create serv (gai_db i) (gai_accountId i)
            in s\<lparr>refresh_task := Finished, refreshToken := r, err := (r = None),
                  g_world := log_call Call_RefreshTokenCreate (g_world s)\<rparr>]
      else [])"

text \<open>The goroutine \<^verbatim>\<open>accessToken, err = serv.TokenAdapter.GenAccess(...)\<close>, likewise.\<close>

definition access_steps ::
  "AccountService \<Rightarrow> genAuthOutputInput \<Rightarrow> gen_state \<Rightarrow> gen_state list" where
  "access_steps serv i s =
     (if access_task s = Running
      then [let r = TokenAdapter serv (gai_accountId i)
            in s\<lparr>access_task := Finished, accessToken := r, err := (r = None),
                  g_world := log_call Call_GenAccess (g_world s)\<rparr>]
      else [])"

text \<open>Any goroutine that can move may move next.\<close>

definition genAuthOutput_steps ::
  "AccountService \<Rightarrow> genAuthOutputInput \<Rightarrow> gen_state \<Rightarrow> gen_state list" where
  "genAuthOutput_steps serv i s = caller_steps i s @ refresh_steps serv i s @ access_steps serv i s"

text \<open>The states a call \<^verbatim>\<open>serv.genAuthOutput(i)\<close> that starts in world \<open>w\<close> can be in.\<close>

inductive genAuthOutput_reaches ::
  "AccountService \<Rightarrow> genAuthOutputInput \<Rightarrow> world \<Rightarrow> gen_state \<Rightarrow> bool"
  for serv :: AccountService and i :: genAuthOutputInput and w :: world where
    start: "genAuthOutput_reaches serv i w (gen_init w)"
  | step: "genAuthOutput_reaches serv i w s \<Longrightarrow> s' \<in> set (genAuthOutput_steps serv i s) \<Longrightarrow>
           genAuthOutput_reaches serv i w s'"

code_pred genAuthOutput_reaches .

section \<open>Example collaborators\<close>

text \<open>
  A provider adapter, a service and a store on which every call succeeds; the concrete
  runs below start from these and change one field at a time.
\<close>

definition ok_adapter :: SignInProviderAdapter where
  "ok_adapter =
     \<lparr>spa_ExchangeCode = (\<lambda>c u. Some \<lparr>eco_AccessToken = ''pat'', eco_RefreshToken = ''prt'',
                                        eco_ExpiresAt = 100, eco_Scopes = [''email'']\<rparr>),
      spa_HasRequiredScopes = (\<lambda>scopes. ''email'' \<in> set scopes),
      spa_GetUserData = (\<lambda>t. Some \<lparr>ud_Id = ''g1'', ud_Email = ''a@x.com'',
                                   ud_IsEmailVerified = True\<rparr>)\<rparr>"

definition ok_service :: AccountService where
  "ok_service =
     \<lparr>GoogleAdapter = ok_adapter, FacebookAdapter = ok_adapter,
      TokenAdapter = (\<lambda>a. Some \<lparr>gao_AccessToken = ''at'', gao_ExpiresAt = 200\<rparr>),
      EmailAdapter = (\<lambda>to c. True), SmsAdapter = (\<lambda>to c. True),
      begin_fails = False, store_fails = (\<lambda>c. False),
      new_account_id = ''A1'', new_code = ''C1'', get_consumes = True,
      RefreshTokenRepository_Create = (\<lambda>h a. Some \<lparr>crt_RefreshToken = ''rt''\<rparr>)\<rparr>"

definition empty_store :: store where
  "empty_store = \<lparr>accounts = [], identities = [], magic_links = [], refresh_tokens = []\<rparr>"

definition world_of :: "store \<Rightarrow> world" where
  "world_of st = \<lparr>committed = st, working = st, tx = None, calls = []\<rparr>"

section \<open>Properties of the account-linking scan\<close>

text \<open>
  Both pointers start out non-nil (they point to the two zero structs), and an iteration
  only ever stores an address in them. So the test before \<^verbatim>\<open>break\<close> holds at the end
  of the first iteration, whatever the list is.
\<close>

lemma scan_body_keeps_non_nil:
  "sameEmail s \<noteq> None \<Longrightarrow> sameProvider s \<noteq> None \<Longrightarrow>
   sameEmail (scan_body lv email pid ptype x s) \<noteq> None \<and>
   sameProvider (scan_body lv email pid ptype x s) \<noteq> None"
  by (simp add: scan_body_def Let_def)

lemma scan_first_only:
  "scan lv email pid ptype (x # xs) scan_init = scan_body lv email pid ptype x scan_init"
  using scan_body_keeps_non_nil [of scan_init lv email pid ptype x]
  by (simp add: Let_def scan_init_def)

lemma relate_first_only:
  "relate lv email pid ptype (x # xs) =
     Return (if ProviderId x = pid \<and> ProviderType x = ptype \<and> AccountId x \<noteq> []
             then Inr (AccountId x) else Inl FailToRelateAccount)"
  by (cases lv)
     (auto simp add: relate_def scan_first_only scan_body_def scan_init_def deref_def
        zero_GetManyAccountsByProviderOutput_def Let_def)

text \<open>
  C1 (code defect). The claim: whenever the candidates contain an identity with the
  event's (provider type, subject id), resolution returns that identity's account id,
  also ahead of a same-email identity of another provider type. The code does so only
  when that identity is the first candidate. Here the Google identity \<open>g1\<close> of account
  \<open>A2\<close> (stored email changed) comes second, after a Facebook identity with the event's
  email: the scan stops after the first candidate, \<^verbatim>\<open>sameProvider\<close> still points to the
  zero struct, \<^verbatim>\<open>accountId\<close> stays empty and resolution fails; the Google sign-in
  of \<open>g1\<close> on a store with these two identities is rolled back with
  \<^verbatim>\<open>fail to relate account\<close>.
\<close>

theorem relate_same_provider_second_fails:
  "relate lv ''a@x.com'' ''g1'' ''GOOGLE''
     [\<lparr>AccountId = ''A1'', ProviderId = ''fb1'', ProviderType = ''FACEBOOK'', Email = ''a@x.com''\<rparr>,
      \<lparr>AccountId = ''A2'', ProviderId = ''g1'', ProviderType = ''GOOGLE'', Email = ''old@x.com''\<rparr>]
   = Return (Inl FailToRelateAccount) \<and>
   CreateFromGoogleProvider lv ok_service \<lparr>Code = ''c'', OriginUrl = ''u''\<rparr>
     (world_of (empty_store\<lparr>identities :=
        [\<lparr>AccountId = ''A1'', ProviderId = ''fb1'', ProviderType = ''FACEBOOK'',
          Email = ''a@x.com''\<rparr>,
         \<lparr>AccountId = ''A2'', ProviderId = ''g1'', ProviderType = ''GOOGLE'',
          Email = ''old@x.com''\<rparr>]\<rparr>))
   = (Return (Inl FailToRelateAccount),
      \<lparr>committed = empty_store\<lparr>identities :=
         [\<lparr>AccountId = ''A1'', ProviderId = ''fb1'', ProviderType = ''FACEBOOK'',
           Email = ''a@x.com''\<rparr>,
          \<lparr>AccountId = ''A2'', ProviderId = ''g1'', ProviderType = ''GOOGLE'',
           Email = ''old@x.com''\<rparr>]\<rparr>,
       working = empty_store\<lparr>identities :=
         [\<lparr>AccountId = ''A1'', ProviderId = ''fb1'', ProviderType = ''FACEBOOK'',
           Email = ''a@x.com''\<rparr>,
          \<lparr>AccountId = ''A2'', ProviderId = ''g1'', ProviderType = ''GOOGLE'',
           Email = ''old@x.com''\<rparr>]\<rparr>,
       tx = Some RolledBack,
       calls = [Call_Begin, Call_ExchangeCode, Call_HasRequiredScopes, Call_GetUserData,
                Call_GetManyByProvider, Call_Rollback]\<rparr>)"
  by (simp add: relate_first_only CreateFromGoogleProvider_def createFromExternal_def
        AccountRepository_GetManyByProvider_def Db_Begin_def Tx_Rollback_def
        rollback_return_def log_call_def Let_def ok_service_def ok_adapter_def world_of_def
        empty_store_def)

text \<open>
  C2 (code defect). The claim: with a same-email identity of another provider type and
  no identity of the event's provider type, resolution succeeds with that identity's
  account id. In the code \<^verbatim>\<open>sameProvider == nil\<close> is never true, so the linking
  assignment never runs: whenever no candidate has the event's provider type, resolution
  fails with \<^verbatim>\<open>fail to relate account\<close>.
\<close>

theorem relate_without_provider_type_fails:
  "\<forall>y \<in> set (x # xs). ProviderType y \<noteq> ptype \<Longrightarrow>
   relate lv email pid ptype (x # xs) = Return (Inl FailToRelateAccount)"
  by (simp add: relate_first_only)

theorem relate_without_provider_type_fails_witness:
  "ProviderType \<lparr>AccountId = ''A1'', ProviderId = ''fb1'', ProviderType = ''FACEBOOK'',
                  Email = ''a@x.com''\<rparr> \<noteq> ''GOOGLE'' \<and>
   relate PerLoop ''a@x.com'' ''g1'' ''GOOGLE''
     [\<lparr>AccountId = ''A1'', ProviderId = ''fb1'', ProviderType = ''FACEBOOK'', Email = ''a@x.com''\<rparr>]
   = Return (Inl FailToRelateAccount)"
  using relate_without_provider_type_fails
    [of "\<lparr>AccountId = ''A1'', ProviderId = ''fb1'', ProviderType = ''FACEBOOK'', Email = ''a@x.com''\<rparr>"
        "[]" "''GOOGLE''" PerLoop "''a@x.com''" "''g1''"]
  by simp

text \<open>
  C9 (code defect). The claim: the scan keeps the first same-email and the first
  same-provider match and stops early exactly once both have been found. In the code
  the scan of a non-empty list always runs exactly one iteration: a match at a later
  position is never seen, and the scan stops although no match has been found yet.
\<close>

theorem scan_visits_exactly_one:
  "visited (scan lv email pid ptype (x # xs) scan_init) = 1"
  by (simp add: scan_first_only scan_body_def scan_init_def Let_def)

section \<open>Properties of credential issuance\<close>

text \<open>
  Every \<^verbatim>\<open>wg.Add(1)\<close> is paired with a \<^verbatim>\<open>defer wg.Done()\<close> in the calling function,
  not in the goroutine. So the counter always equals the number of deferred calls that
  have not run, the caller never gets past \<^verbatim>\<open>wg.Wait()\<close>, and neither the result nor
  the transaction ever changes.
\<close>

lemma gen_invariant:
  "genAuthOutput_reaches serv i w s \<Longrightarrow>
   result s = None \<and> tx (g_world s) = tx w \<and> committed (g_world s) = committed w \<and>
   working (g_world s) = working w \<and> wg s = int (deferred s) \<and>
   (pc s = AtIfRefresh \<or> pc s = AtAddAccess \<or> (pc s = AtWait \<and> 0 < wg s))"
proof (induction rule: genAuthOutput_reaches.induct)
  case start
  show ?case by (simp add: gen_init_def)
next
  case (step s s')
  then show ?case
    by (auto simp add: genAuthOutput_steps_def caller_steps_def refresh_steps_def
          access_steps_def log_call_def Let_def split: pc.splits if_splits)
qed

text \<open>
  The run in which the caller starts the goroutines and both run to their end (the
  refresh goroutine first) leads to this state, in which the caller is in
  \<^verbatim>\<open>wg.Wait()\<close> with a positive counter.
\<close>

lemma gen_blocked_reachable:
  "genAuthOutput_reaches serv i w
     \<lparr>pc = AtWait, wg = (if gai_refresh i then 2 else 1),
      deferred = (if gai_refresh i then 2 else 1),
      refresh_task = (if gai_refresh i then Finished else NotStarted),
      access_task = Finished,
      refreshToken = (if gai_refresh i
                      then RefreshTokenRepository_Create serv (gai_db i) (gai_accountId i)
                      else None),
      accessToken = TokenAdapter serv (gai_accountId i),
      err = (TokenAdapter serv (gai_accountId i) = None),
      g_world = log_call Call_GenAccess
                  (if gai_refresh i then log_call Call_RefreshTokenCreate w else w),
      result = None\<rparr>"
proof -
  let ?s0 = "gen_init w"
  have r0: "genAuthOutput_reaches serv i w ?s0"
    by (rule genAuthOutput_reaches.start)
  let ?s1 = "if gai_refresh i
             then ?s0\<lparr>pc := AtAddAccess, wg := wg ?s0 + 1, deferred := Suc (deferred ?s0),
                      refresh_task := Running\<rparr>
             else ?s0\<lparr>pc := AtAddAccess\<rparr>"
  have r1: "genAuthOutput_reaches serv i w ?s1"
    by (rule genAuthOutput_reaches.step [OF r0])
       (simp add: genAuthOutput_steps_def caller_steps_def gen_init_def)
  let ?s2 = "?s1\<lparr>pc := AtWait, wg := wg ?s1 + 1, deferred := Suc (deferred ?s1),
                 access_task := Running\<rparr>"
  have r2: "genAuthOutput_reaches serv i w ?s2"
    by (rule genAuthOutput_reaches.step [OF r1])
       (simp add: genAuthOutput_steps_def caller_steps_def gen_init_def)
  let ?s3 = "if gai_refresh i
             then ?s2\<lparr>refresh_task := Finished,
                      refreshToken := RefreshTokenRepository_Create serv (gai_db i) (gai_accountId i),
                      err := (RefreshTokenRepository_Create serv (gai_db i) (gai_accountId i) = None),
                      g_world := log_call Call_RefreshTokenCreate (g_world ?s2)\<rparr>
             else ?s2"
  have r3: "genAuthOutput_reaches serv i w ?s3"
  proof (cases "gai_refresh i")
    case True
    show ?thesis
      by (rule genAuthOutput_reaches.step [OF r2])
         (simp add: True genAuthOutput_steps_def caller_steps_def refresh_steps_def
            gen_init_def Let_def)
  next
    case False
    with r2 show ?thesis by simp
  qed
  let ?s4 = "?s3\<lparr>access_task := Finished, accessToken := TokenAdapter serv (gai_accountId i),
                 err := (TokenAdapter serv (gai_accountId i) = None),
                 g_world := log_call Call_GenAccess (g_world ?s3)\<rparr>"
  have r4: "genAuthOutput_reaches serv i w ?s4"
    by (rule genAuthOutput_reaches.step [OF r3])
       (simp add: genAuthOutput_steps_def caller_steps_def refresh_steps_def
          access_steps_def gen_init_def Let_def)
  have "?s4 =
    \<lparr>pc = AtWait, wg = (if gai_refresh i then 2 else 1),
     deferred = (if gai_refresh i then 2 else 1),
     refresh_task = (if gai_refresh i then Finished else NotStarted),
     access_task = Finished,
     refreshToken = (if gai_refresh i
                     then RefreshTokenRepository_Create serv (gai_db i) (gai_accountId i)
                     else None),
     accessToken = TokenAdapter serv (gai_accountId i),
     err = (TokenAdapter serv (gai_accountId i) = None),
     g_world = log_call Call_GenAccess
                 (if gai_refresh i then log_call Call_RefreshTokenCreate w else w),
     result = None\<rparr>"
    by (simp add: gen_init_def)
  with r4 show ?thesis by simp
qed

text \<open>
  C4 (code defect). The claim: every call of \<^verbatim>\<open>genAuthOutput\<close> terminates, because each
  \<^verbatim>\<open>wg.Add(1)\<close> is matched by a \<^verbatim>\<open>wg.Done()\<close> that runs before \<^verbatim>\<open>wg.Wait()\<close> can
  return. In the code no state that a call can reach is past \<^verbatim>\<open>wg.Wait()\<close>: the
  counter always equals the number of \<^verbatim>\<open>wg.Done()\<close> calls still deferred, none of which
  runs before the function returns, and it is positive once the caller waits.
\<close>

theorem genAuthOutput_never_leaves_wait:
  "genAuthOutput_reaches serv i w s \<Longrightarrow>
   pc s \<noteq> AtJoin \<and> pc s \<noteq> Returned \<and> wg s = int (deferred s) \<and>
   (pc s = AtWait \<longrightarrow> 0 < wg s)"
  using gen_invariant [of serv i w s] by auto

text \<open>
  The witness: with collaborators that all succeed and with refresh requested, both
  goroutines have finished, the caller waits with counter 2, and no goroutine has a
  step left.
\<close>

theorem genAuthOutput_never_leaves_wait_witness:
  "genAuthOutput_reaches ok_service
     \<lparr>gai_db = Some Tx, gai_accountId = ''A1'', gai_isFirstAccess = False, gai_refresh = True\<rparr>
     ((world_of empty_store)\<lparr>tx := Some Open\<rparr>)
     \<lparr>pc = AtWait, wg = 2, deferred = 2, refresh_task = Finished, access_task = Finished,
      refreshToken = Some \<lparr>crt_RefreshToken = ''rt''\<rparr>,
      accessToken = Some \<lparr>gao_AccessToken = ''at'', gao_ExpiresAt = 200\<rparr>, err = False,
      g_world = \<lparr>committed = empty_store, working = empty_store, tx = Some Open,
                 calls = [Call_RefreshTokenCreate, Call_GenAccess]\<rparr>,
      result = None\<rparr> \<and>
   genAuthOutput_steps ok_service
     \<lparr>gai_db = Some Tx, gai_accountId = ''A1'', gai_isFirstAccess = False, gai_refresh = True\<rparr>
     \<lparr>pc = AtWait, wg = 2, deferred = 2, refresh_task = Finished, access_task = Finished,
      refreshToken = Some \<lparr>crt_RefreshToken = ''rt''\<rparr>,
      accessToken = Some \<lparr>gao_AccessToken = ''at'', gao_ExpiresAt = 200\<rparr>, err = False,
      g_world = \<lparr>committed = empty_store, working = empty_store, tx = Some Open,
                 calls = [Call_RefreshTokenCreate, Call_GenAccess]\<rparr>,
      result = None\<rparr> = [] \<and>
   (0::int) < 2"
proof -
  let ?i = "\<lparr>gai_db = Some Tx, gai_accountId = ''A1'', gai_isFirstAccess = False,
             gai_refresh = True\<rparr>"
  let ?s = "\<lparr>pc = AtWait, wg = 2, deferred = 2, refresh_task = Finished,
      access_task = Finished,
      refreshToken = Some \<lparr>crt_RefreshToken = ''rt''\<rparr>,
      accessToken = Some \<lparr>gao_AccessToken = ''at'', gao_ExpiresAt = 200\<rparr>, err = False,
      g_world = \<lparr>committed = empty_store, working = empty_store, tx = Some Open,
                 calls = [Call_RefreshTokenCreate, Call_GenAccess]\<rparr>,
      result = None\<rparr>"
  have r: "genAuthOutput_reaches ok_service ?i ((world_of empty_store)\<lparr>tx := Some Open\<rparr>) ?s"
    using gen_blocked_reachable [of ok_service ?i "(world_of empty_store)\<lparr>tx := Some Open\<rparr>"]
    by (simp add: ok_service_def world_of_def log_call_def)
  have "genAuthOutput_steps ok_service ?i ?s = []"
    by (simp add: genAuthOutput_steps_def caller_steps_def refresh_steps_def access_steps_def)
  with r genAuthOutput_never_leaves_wait [OF r] show ?thesis by simp
qed

text \<open>
  C3 (code defect). The claim: every call either returns both tokens and commits, or
  fails with the issuance error and rolls back. In the code a call does neither: in
  every state it can reach there is no result, and the transaction and the committed
  store are as they were at the start.
\<close>

theorem genAuthOutput_no_outcome:
  "genAuthOutput_reaches serv i w s \<Longrightarrow>
   result s = None \<and> tx (g_world s) = tx w \<and> committed (g_world s) = committed w"
  using gen_invariant [of serv i w s] by simp

text \<open>
  The witness: the refresh-token store fails and the token adapter succeeds. The access
  token has been minted, the refresh token is missing, \<^verbatim>\<open>err\<close> is nil again (the access
  goroutine assigned it last), and the call has produced neither an error nor a
  rollback.
\<close>

theorem genAuthOutput_no_outcome_witness:
  "genAuthOutput_reaches (ok_service\<lparr>RefreshTokenRepository_Create := (\<lambda>h a. None)\<rparr>)
     \<lparr>gai_db = Some Tx, gai_accountId = ''A1'', gai_isFirstAccess = False, gai_refresh = True\<rparr>
     ((world_of empty_store)\<lparr>tx := Some Open\<rparr>)
     \<lparr>pc = AtWait, wg = 2, deferred = 2, refresh_task = Finished, access_task = Finished,
      refreshToken = None,
      accessToken = Some \<lparr>gao_AccessToken = ''at'', gao_ExpiresAt = 200\<rparr>, err = False,
      g_world = \<lparr>committed = empty_store, working = empty_store, tx = Some Open,
                 calls = [Call_RefreshTokenCreate, Call_GenAccess]\<rparr>,
      result = None\<rparr> \<and>
   tx ((world_of empty_store)\<lparr>tx := Some Open\<rparr>) = Some Open"
proof -
  let ?serv = "ok_service\<lparr>RefreshTokenRepository_Create := (\<lambda>h a. None)\<rparr>"
  let ?i = "\<lparr>gai_db = Some Tx, gai_accountId = ''A1'', gai_isFirstAccess = False,
             gai_refresh = True\<rparr>"
  let ?s = "\<lparr>pc = AtWait, wg = 2, deferred = 2, refresh_task = Finished,
      access_task = Finished, refreshToken = None,
      accessToken = Some \<lparr>gao_AccessToken = ''at'', gao_ExpiresAt = 200\<rparr>, err = False,
      g_world = \<lparr>committed = empty_store, working = empty_store, tx = Some Open,
                 calls = [Call_RefreshTokenCreate, Call_GenAccess]\<rparr>,
      result = None\<rparr>"
  have r: "genAuthOutput_reaches ?serv ?i ((world_of empty_store)\<lparr>tx := Some Open\<rparr>) ?s"
    using gen_blocked_reachable [of ?serv ?i "(world_of empty_store)\<lparr>tx := Some Open\<rparr>"]
    by (simp add: ok_service_def world_of_def log_call_def)
  from r genAuthOutput_no_outcome [OF r] show ?thesis by (simp add: world_of_def)
qed

section \<open>Properties of the sequential operations\<close>

lemmas world_ops =
  Db_Begin_def Tx_Commit_def Tx_Rollback_def rollback_return_def log_call_def Let_def

lemmas store_ops =
  AccountRepository_Create_def AccountRepository_GetByEmail_def
  AccountRepository_GetByPhone_def AccountRepository_GetManyByProvider_def
  MagicLinkCodeRepository_Upsert_def MagicLinkCodeRepository_Get_def
  RefreshTokenRepository_Get_def

subsection \<open>\<^verbatim>\<open>RefreshToken\<close>\<close>

lemma RefreshToken_committed:
  "committed (snd (RefreshToken serv i w)) = committed w"
  by (simp add: RefreshToken_def RefreshTokenRepository_Get_def world_ops split: option.splits)

lemma RefreshToken_absent:
  "\<not> begin_fails serv \<Longrightarrow> \<not> store_fails serv Call_RefreshTokenGet \<Longrightarrow>
   (rti_AccountId i, rti_RefreshToken i) \<notin> set (refresh_tokens (committed w)) \<Longrightarrow>
   RefreshToken serv i w =
     (Return (Inl RefreshTokenDoesntExist),
      w\<lparr>working := committed w, tx := Some RolledBack,
        calls := calls w @ [Call_Begin, Call_RefreshTokenGet, Call_Rollback]\<rparr>)"
  by (simp add: RefreshToken_def RefreshTokenRepository_Get_def world_ops)

lemma RefreshToken_present:
  "\<not> begin_fails serv \<Longrightarrow> \<not> store_fails serv Call_RefreshTokenGet \<Longrightarrow>
   (rti_AccountId i, rti_RefreshToken i) \<in> set (refresh_tokens (committed w)) \<Longrightarrow>
   RefreshToken serv i w =
     (case TokenAdapter serv (rti_AccountId i) of
        None \<Rightarrow>
          (Return (Inl FailToGenerateAccessToken),
           w\<lparr>working := committed w, tx := Some RolledBack,
             calls := calls w @ [Call_Begin, Call_RefreshTokenGet, Call_GenAccess,
                                 Call_Rollback]\<rparr>)
      | Some a \<Rightarrow>
          (Return (Inr \<lparr>rto_AccessToken = gao_AccessToken a, rto_ExpiresAt = gao_ExpiresAt a\<rparr>),
           w\<lparr>working := committed w, tx := Some Committed,
             calls := calls w @ [Call_Begin, Call_RefreshTokenGet, Call_GenAccess,
                                 Call_Commit]\<rparr>))"
  by (simp add: RefreshToken_def RefreshTokenRepository_Get_def world_ops split: option.splits)

text \<open>
  C10. Once the transaction has begun and the store has answered the lookup: when the
  store holds no refresh token with the given account id and value, \<^verbatim>\<open>RefreshToken\<close>
  fails with \<^verbatim>\<open>refresh token doesn't exist\<close>, having made only the lookup and the
  rollback; when the store holds it, the token adapter is asked for an access token,
  and its token and expiry are returned and the transaction committed (or, when the
  adapter fails, the call fails and rolls back). No refresh token is created on any
  path, and the committed store never changes.
\<close>

theorem RefreshToken_checks_the_store:
  assumes "\<not> begin_fails serv" and "\<not> store_fails serv Call_RefreshTokenGet"
  shows
    "((rti_AccountId i, rti_RefreshToken i) \<notin> set (refresh_tokens (committed w)) \<longrightarrow>
        RefreshToken serv i w =
          (Return (Inl RefreshTokenDoesntExist),
           w\<lparr>working := committed w, tx := Some RolledBack,
             calls := calls w @ [Call_Begin, Call_RefreshTokenGet, Call_Rollback]\<rparr>)) \<and>
     ((rti_AccountId i, rti_RefreshToken i) \<in> set (refresh_tokens (committed w)) \<longrightarrow>
        RefreshToken serv i w =
          (case TokenAdapter serv (rti_AccountId i) of
             None \<Rightarrow>
               (Return (Inl FailToGenerateAccessToken),
                w\<lparr>working := committed w, tx := Some RolledBack,
                  calls := calls w @ [Call_Begin, Call_RefreshTokenGet, Call_GenAccess,
                                      Call_Rollback]\<rparr>)
           | Some a \<Rightarrow>
               (Return (Inr \<lparr>rto_AccessToken = gao_AccessToken a,
                              rto_ExpiresAt = gao_ExpiresAt a\<rparr>),
                w\<lparr>working := committed w, tx := Some Committed,
                  calls := calls w @ [Call_Begin, Call_RefreshTokenGet, Call_GenAccess,
                                      Call_Commit]\<rparr>))) \<and>
     committed (snd (RefreshToken serv i w)) = committed w"
  using assms RefreshToken_absent [of serv i w] RefreshToken_present [of serv i w]
    RefreshToken_committed [of serv i w]
  by blast

text \<open>
  The witness: account \<open>A1\<close> holds the refresh token \<open>rt\<close>. The call with
  \<open>bad-token\<close> fails after the lookup and the rollback; the call with \<open>rt\<close> returns
  the access token of the adapter and commits. The store is the same after both.
\<close>

theorem RefreshToken_checks_the_store_witness:
  "RefreshToken ok_service \<lparr>rti_AccountId = ''A1'', rti_RefreshToken = ''bad-token''\<rparr>
     (world_of (empty_store\<lparr>refresh_tokens := [(''A1'', ''rt'')]\<rparr>)) =
     (Return (Inl RefreshTokenDoesntExist),
      \<lparr>committed = empty_store\<lparr>refresh_tokens := [(''A1'', ''rt'')]\<rparr>,
       working = empty_store\<lparr>refresh_tokens := [(''A1'', ''rt'')]\<rparr>,
       tx = Some RolledBack,
       calls = [Call_Begin, Call_RefreshTokenGet, Call_Rollback]\<rparr>) \<and>
   RefreshToken ok_service \<lparr>rti_AccountId = ''A1'', rti_RefreshToken = ''rt''\<rparr>
     (world_of (empty_store\<lparr>refresh_tokens := [(''A1'', ''rt'')]\<rparr>)) =
     (Return (Inr \<lparr>rto_AccessToken = ''at'', rto_ExpiresAt = 200\<rparr>),
      \<lparr>committed = empty_store\<lparr>refresh_tokens := [(''A1'', ''rt'')]\<rparr>,
       working = empty_store\<lparr>refresh_tokens := [(''A1'', ''rt'')]\<rparr>,
       tx = Some Committed,
       calls = [Call_Begin, Call_RefreshTokenGet, Call_GenAccess, Call_Commit]\<rparr>)"
  using
    RefreshToken_checks_the_store [of ok_service
      "\<lparr>rti_AccountId = ''A1'', rti_RefreshToken = ''bad-token''\<rparr>"
      "world_of (empty_store\<lparr>refresh_tokens := [(''A1'', ''rt'')]\<rparr>)"]
    RefreshToken_checks_the_store [of ok_service
      "\<lparr>rti_AccountId = ''A1'', rti_RefreshToken = ''rt''\<rparr>"
      "world_of (empty_store\<lparr>refresh_tokens := [(''A1'', ''rt'')]\<rparr>)"]
  by (simp add: ok_service_def world_of_def empty_store_def)

subsection \<open>\<^verbatim>\<open>ExchangeCode\<close>\<close>

text \<open>
  What a second exchange of the same code does is decided by the repository, not by
  \<^verbatim>\<open>ExchangeCode\<close>: after an exchange that found the code, a repository whose \<^verbatim>\<open>Get\<close>
  consumes makes the next exchange fail with \<^verbatim>\<open>magic link code doesn't exist\<close>, and a
  repository whose \<^verbatim>\<open>Get\<close> only reads makes it find the code again.
\<close>

lemma find_filter_other_key:
  "find (\<lambda>kv. fst kv = aid \<and> P kv) (filter (\<lambda>kv. fst kv \<noteq> aid) ms) = None"
  by (induction ms) simp_all

lemma ExchangeCode_again_when_Get_consumes:
  "get_consumes serv \<Longrightarrow> \<not> store_fails serv Call_MagicLinkGet \<Longrightarrow>
   ExchangeCode serv i w = (Return (Inr g), w') \<Longrightarrow>
   fst (ExchangeCode serv i w') = Return (Inl MagicLinkCodeDoesntExist)"
  by (auto simp add: ExchangeCode_def MagicLinkCodeRepository_Get_def world_ops
        find_filter_other_key split: option.splits if_splits)

lemma ExchangeCode_again_when_Get_reads:
  "\<not> get_consumes serv \<Longrightarrow> ExchangeCode serv i w = (Return (Inr g), w') \<Longrightarrow>
   fst (ExchangeCode serv i w') = Return (Inr g)"
  by (auto simp add: ExchangeCode_def MagicLinkCodeRepository_Get_def world_ops
        split: option.splits if_splits)

text \<open>
  \<^verbatim>\<open>ExchangeCode\<close> has two ways to end: an error after a rollback, or the call of
  \<^verbatim>\<open>genAuthOutput\<close> after the commit, with the handle of the committed transaction.
\<close>

lemma ExchangeCode_issue:
  "ExchangeCode serv i w = (Return (Inr g), w') \<Longrightarrow>
   gai_db g = Some Tx \<and> gai_accountId g = eci_AccountId i \<and> gai_refresh g \<and>
   tx w' = Some Committed \<and>
   find (\<lambda>kv. fst kv = eci_AccountId i \<and> mlc_Code (snd kv) = eci_Code i)
     (magic_links (committed w)) \<noteq> None"
  by (auto simp add: ExchangeCode_def MagicLinkCodeRepository_Get_def world_ops
        split: option.splits if_splits)



subsection \<open>The passwordless operations\<close>

lemma CreateFromEmailProvider_success:
  "fst (CreateFromEmailProvider serv i w) = Return (Inr ()) \<longleftrightarrow>
     \<not> begin_fails serv \<and> \<not> store_fails serv Call_GetByEmail \<and>
     (find (\<lambda>a. acc_Email a = Some (cfe_Email i)) (accounts (committed w)) = None \<longrightarrow>
        \<not> store_fails serv Call_AccountCreate) \<and>
     \<not> store_fails serv Call_MagicLinkUpsert \<and>
     EmailAdapter serv (cfe_Email i) (new_code serv)"
  by (auto simp add: CreateFromEmailProvider_def store_ops world_ops split: option.splits)

lemma CreateFromEmailProvider_commit:
  "fst (CreateFromEmailProvider serv i w) = Return (Inr ()) \<Longrightarrow>
   tx (snd (CreateFromEmailProvider serv i w)) = Some Committed"
  by (auto simp add: CreateFromEmailProvider_def store_ops world_ops
        split: option.splits if_splits)

lemma CreateFromEmailProvider_failure:
  "fst (CreateFromEmailProvider serv i w) \<noteq> Return (Inr ()) \<Longrightarrow>
   committed (snd (CreateFromEmailProvider serv i w)) = committed w \<and>
   (if begin_fails serv then tx (snd (CreateFromEmailProvider serv i w)) = tx w
    else tx (snd (CreateFromEmailProvider serv i w)) = Some RolledBack)"
  by (auto simp add: CreateFromEmailProvider_def store_ops world_ops
        split: option.splits if_splits)

lemma CreateFromPhoneProvider_success:
  "fst (CreateFromPhoneProvider serv j w) = Return (Inr ()) \<longleftrightarrow>
     \<not> begin_fails serv \<and> \<not> store_fails serv Call_GetByPhone \<and>
     (find (\<lambda>a. acc_Phone a = Some \<lparr>CountryCode = CountryCode (cfp_Phone j),
                                     Number = Number (cfp_Phone j)\<rparr>)
        (accounts (committed w)) = None \<longrightarrow>
        \<not> store_fails serv Call_AccountCreate) \<and>
     \<not> store_fails serv Call_MagicLinkUpsert \<and>
     SmsAdapter serv (CountryCode (cfp_Phone j) @ Number (cfp_Phone j)) (new_code serv)"
  by (auto simp add: CreateFromPhoneProvider_def store_ops world_ops split: option.splits)

lemma CreateFromPhoneProvider_commit:
  "fst (CreateFromPhoneProvider serv j w) = Return (Inr ()) \<Longrightarrow>
   tx (snd (CreateFromPhoneProvider serv j w)) = Some Committed"
  by (auto simp add: CreateFromPhoneProvider_def store_ops world_ops
        split: option.splits if_splits)

lemma CreateFromPhoneProvider_failure:
  "fst (CreateFromPhoneProvider serv j w) \<noteq> Return (Inr ()) \<Longrightarrow>
   committed (snd (CreateFromPhoneProvider serv j w)) = committed w \<and>
   (if begin_fails serv then tx (snd (CreateFromPhoneProvider serv j w)) = tx w
    else tx (snd (CreateFromPhoneProvider serv j w)) = Some RolledBack)"
  by (auto simp add: CreateFromPhoneProvider_def store_ops world_ops
        split: option.splits if_splits)

text \<open>
  C7. For the email and for the phone operation: the operation succeeds exactly when
  the transaction begins and the lookup, the creation of the account (when the lookup
  found none), the upsert of the code and the notification all succeed, and then the
  transaction is committed. Otherwise the committed store is the one from before the
  call, so a later lookup finds no account that this call created, and the
  transaction is rolled back (when it could not even begin, there is none).
\<close>

theorem passwordless_commit_only_when_all_steps_succeed:
  "(fst (CreateFromEmailProvider serv i w) = Return (Inr ()) \<longleftrightarrow>
      \<not> begin_fails serv \<and> \<not> store_fails serv Call_GetByEmail \<and>
      (find (\<lambda>a. acc_Email a = Some (cfe_Email i)) (accounts (committed w)) = None \<longrightarrow>
         \<not> store_fails serv Call_AccountCreate) \<and>
      \<not> store_fails serv Call_MagicLinkUpsert \<and>
      EmailAdapter serv (cfe_Email i) (new_code serv)) \<and>
   (fst (CreateFromEmailProvider serv i w) = Return (Inr ()) \<longrightarrow>
      tx (snd (CreateFromEmailProvider serv i w)) = Some Committed) \<and>
   (fst (CreateFromEmailProvider serv i w) \<noteq> Return (Inr ()) \<longrightarrow>
      committed (snd (CreateFromEmailProvider serv i w)) = committed w \<and>
      (if begin_fails serv then tx (snd (CreateFromEmailProvider serv i w)) = tx w
       else tx (snd (CreateFromEmailProvider serv i w)) = Some RolledBack)) \<and>
   (fst (CreateFromPhoneProvider serv j w) = Return (Inr ()) \<longleftrightarrow>
      \<not> begin_fails serv \<and> \<not> store_fails serv Call_GetByPhone \<and>
      (find (\<lambda>a. acc_Phone a = Some \<lparr>CountryCode = CountryCode (cfp_Phone j),
                                      Number = Number (cfp_Phone j)\<rparr>)
         (accounts (committed w)) = None \<longrightarrow>
         \<not> store_fails serv Call_AccountCreate) \<and>
      \<not> store_fails serv Call_MagicLinkUpsert \<and>
      SmsAdapter serv (CountryCode (cfp_Phone j) @ Number (cfp_Phone j)) (new_code serv)) \<and>
   (fst (CreateFromPhoneProvider serv j w) = Return (Inr ()) \<longrightarrow>
      tx (snd (CreateFromPhoneProvider serv j w)) = Some Committed) \<and>
   (fst (CreateFromPhoneProvider serv j w) \<noteq> Return (Inr ()) \<longrightarrow>
      committed (snd (CreateFromPhoneProvider serv j w)) = committed w \<and>
      (if begin_fails serv then tx (snd (CreateFromPhoneProvider serv j w)) = tx w
       else tx (snd (CreateFromPhoneProvider serv j w)) = Some RolledBack))"
  using CreateFromEmailProvider_success [of serv i w]
    CreateFromEmailProvider_commit [of serv i w]
    CreateFromEmailProvider_failure [of serv i w]
    CreateFromPhoneProvider_success [of serv j w]
    CreateFromPhoneProvider_commit [of serv j w]
    CreateFromPhoneProvider_failure [of serv j w]
  by blast

text \<open>
  The witness: on an empty store the email operation creates account \<open>A1\<close> and its
  code, then the email adapter fails: the call fails, the transaction is rolled back
  and the committed store is still empty. The phone operation, with every
  collaborator succeeding, commits the account and its code.
\<close>

theorem passwordless_commit_only_when_all_steps_succeed_witness:
  "CreateFromEmailProvider (ok_service\<lparr>EmailAdapter := (\<lambda>to c. False)\<rparr>)
     \<lparr>cfe_Email = ''a@x.com''\<rparr> (world_of empty_store) =
     (Return (Inl FailToSendSms),
      \<lparr>committed = empty_store, working = empty_store, tx = Some RolledBack,
       calls = [Call_Begin, Call_GetByEmail, Call_AccountCreate, Call_MagicLinkUpsert,
                Call_SendVerificationCodeEmail, Call_Rollback]\<rparr>) \<and>
   fst (CreateFromPhoneProvider (ok_service\<lparr>EmailAdapter := (\<lambda>to c. False)\<rparr>)
     \<lparr>cfp_Phone = \<lparr>CountryCode = ''+55'', Number = ''11999''\<rparr>\<rparr> (world_of empty_store)) =
     Return (Inr ()) \<and>
   tx (snd (CreateFromPhoneProvider (ok_service\<lparr>EmailAdapter := (\<lambda>to c. False)\<rparr>)
     \<lparr>cfp_Phone = \<lparr>CountryCode = ''+55'', Number = ''11999''\<rparr>\<rparr> (world_of empty_store))) =
     Some Committed \<and>
   accounts (committed (snd (CreateFromPhoneProvider
     (ok_service\<lparr>EmailAdapter := (\<lambda>to c. False)\<rparr>)
     \<lparr>cfp_Phone = \<lparr>CountryCode = ''+55'', Number = ''11999''\<rparr>\<rparr> (world_of empty_store)))) =
     [\<lparr>acc_Id = ''A1'', acc_Email = None,
       acc_Phone = Some \<lparr>CountryCode = ''+55'', Number = ''11999''\<rparr>\<rparr>]"
  using passwordless_commit_only_when_all_steps_succeed
    [of "ok_service\<lparr>EmailAdapter := (\<lambda>to c. False)\<rparr>" "\<lparr>cfe_Email = ''a@x.com''\<rparr>"
        "world_of empty_store"
        "\<lparr>cfp_Phone = \<lparr>CountryCode = ''+55'', Number = ''11999''\<rparr>\<rparr>"]
  by (simp add: CreateFromEmailProvider_def CreateFromPhoneProvider_def store_ops world_ops
        ok_service_def world_of_def empty_store_def opt_string_def opt_phone_def)

subsection \<open>External-provider sign-in\<close>

text \<open>
  C8. When the exchange, the scope check and the profile fetch have succeeded, the
  email is verified and the store returns no related identity, \<^verbatim>\<open>createFromExternal\<close>
  makes one \<^verbatim>\<open>Create\<close> call that adds one account and one identity (with the provider
  id and type of the event) to the view of the transaction, and, when that call
  succeeds, goes on to credential issuance with the new account id and
  \<^verbatim>\<open>isFirstAccess = true\<close>.
\<close>

theorem createFromExternal_creates_account_with_identity:
  assumes "spa_ExchangeCode (ext_providerService i) (ext_code i) (ext_originUrl i) = Some ex"
    and "spa_HasRequiredScopes (ext_providerService i) (eco_Scopes ex)"
    and "spa_GetUserData (ext_providerService i) (eco_AccessToken ex) = Some pd"
    and "ud_IsEmailVerified pd"
    and "\<not> store_fails serv Call_GetManyByProvider"
    and "filter (\<lambda>x. (ProviderId x = ud_Id pd \<and> ProviderType x = ext_providerType i) \<or>
                      Email x = ud_Email pd) (identities (working w)) = []"
    and "\<not> store_fails serv Call_AccountCreate"
  shows "createFromExternal lv serv i w =
    (Return (Inr \<lparr>gai_db = None, gai_accountId = new_account_id serv,
                   gai_isFirstAccess = True, gai_refresh = True\<rparr>),
     w\<lparr>working := (working w)
         \<lparr>accounts := accounts (working w) @
            [\<lparr>acc_Id = new_account_id serv, acc_Email = opt_string (ud_Email pd),
              acc_Phone = None\<rparr>],
          identities := identities (working w) @
            [\<lparr>AccountId = new_account_id serv, ProviderId = ud_Id pd,
              ProviderType = ext_providerType i, Email = ud_Email pd\<rparr>]\<rparr>,
       calls := calls w @ [Call_ExchangeCode, Call_HasRequiredScopes, Call_GetUserData,
                           Call_GetManyByProvider, Call_AccountCreate]\<rparr>)"
  using assms
  by (simp add: createFromExternal_def store_ops world_ops opt_phone_def)

text \<open>
  The witness: a Google sign-in of subject \<open>g1\<close> with email \<open>a@x.com\<close> on an empty
  store, inside the open transaction.
\<close>

theorem createFromExternal_creates_account_with_identity_witness:
  "createFromExternal PerLoop ok_service
     \<lparr>ext_db = Some Tx, ext_providerService = ok_adapter, ext_providerType = ''GOOGLE'',
      ext_code = ''c'', ext_originUrl = ''u''\<rparr>
     ((world_of empty_store)\<lparr>tx := Some Open\<rparr>) =
     (Return (Inr \<lparr>gai_db = None, gai_accountId = ''A1'', gai_isFirstAccess = True,
                    gai_refresh = True\<rparr>),
      \<lparr>committed = empty_store,
       working = empty_store
         \<lparr>accounts := [\<lparr>acc_Id = ''A1'', acc_Email = Some ''a@x.com'', acc_Phone = None\<rparr>],
          identities := [\<lparr>AccountId = ''A1'', ProviderId = ''g1'', ProviderType = ''GOOGLE'',
                          Email = ''a@x.com''\<rparr>]\<rparr>,
       tx = Some Open,
       calls = [Call_ExchangeCode, Call_HasRequiredScopes, Call_GetUserData,
                Call_GetManyByProvider, Call_AccountCreate]\<rparr>)"
  using createFromExternal_creates_account_with_identity
    [where i = "\<lparr>ext_db = Some Tx, ext_providerService = ok_adapter,
                  ext_providerType = ''GOOGLE'', ext_code = ''c'', ext_originUrl = ''u''\<rparr>"
       and ex = "\<lparr>eco_AccessToken = ''pat'', eco_RefreshToken = ''prt'', eco_ExpiresAt = 100,
                  eco_Scopes = [''email'']\<rparr>"
       and pd = "\<lparr>ud_Id = ''g1'', ud_Email = ''a@x.com'', ud_IsEmailVerified = True\<rparr>"
       and serv = ok_service and w = "(world_of empty_store)\<lparr>tx := Some Open\<rparr>"
       and lv = PerLoop]
  by (simp add: ok_service_def ok_adapter_def world_of_def empty_store_def opt_string_def)

text \<open>
  What holds of the flow up to credential issuance: a failure rolls the transaction
  back and leaves the committed store alone; missing scopes fail the flow after the
  exchange and the scope check, before any store call; the collaborators are called in
  source order.
\<close>

lemma createFromExternal_failure:
  "createFromExternal lv serv i w = (Return (Inl e), w') \<Longrightarrow> tx w = Some Open \<Longrightarrow>
   tx w' = Some RolledBack \<and> committed w' = committed w \<and> working w' = committed w"
  by (auto simp add: createFromExternal_def store_ops world_ops
        split: option.splits if_splits outcome.splits sum.splits)

lemma createFromExternal_missing_scopes:
  "spa_ExchangeCode (ext_providerService i) (ext_code i) (ext_originUrl i) = Some ex \<Longrightarrow>
   \<not> spa_HasRequiredScopes (ext_providerService i) (eco_Scopes ex) \<Longrightarrow>
   ext_db i = Some h \<Longrightarrow>
   createFromExternal lv serv i w =
     (Return (Inl MissingScopes),
      Tx_Rollback (w\<lparr>calls := calls w @ [Call_ExchangeCode, Call_HasRequiredScopes]\<rparr>))"
  by (simp add: createFromExternal_def rollback_return_def log_call_def)

lemma createFromExternal_failure_calls:
  "createFromExternal lv serv i w = (Return (Inl e), w') \<Longrightarrow>
   calls w' \<in>
     (\<lambda>n. calls w @
            take n [Call_ExchangeCode, Call_HasRequiredScopes, Call_GetUserData,
                    Call_GetManyByProvider, Call_AccountCreate] @ [Call_Rollback]) `
       {1, 2, 3, 4, 5}"
  by (auto simp add: createFromExternal_def store_ops world_ops
        split: option.splits if_splits outcome.splits sum.splits)

lemma createFromExternal_issue_calls:
  "createFromExternal lv serv i w = (Return (Inr g), w') \<Longrightarrow>
   calls w' = calls w @ [Call_ExchangeCode, Call_HasRequiredScopes, Call_GetUserData,
                         Call_GetManyByProvider] \<or>
   calls w' = calls w @ [Call_ExchangeCode, Call_HasRequiredScopes, Call_GetUserData,
                         Call_GetManyByProvider, Call_AccountCreate]"
  by (auto simp add: createFromExternal_def store_ops world_ops
        split: option.splits if_splits outcome.splits sum.splits)

text \<open>
  The call of \<^verbatim>\<open>genAuthOutput\<close> at the end of \<^verbatim>\<open>createFromExternal\<close> sets no \<^verbatim>\<open>db\<close>
  field, so the handle is nil, and the transaction of the flow is as it was.
\<close>

lemma createFromExternal_issue:
  "createFromExternal lv serv i w = (Return (Inr g), w') \<Longrightarrow>
   gai_db g = None \<and> gai_refresh g \<and> tx w' = tx w \<and> committed w' = committed w"
  by (auto simp add: createFromExternal_def store_ops world_ops
        split: option.splits if_splits outcome.splits sum.splits)

lemma genAuthOutput_join_nil_db:
  "gai_db g = None \<Longrightarrow> fst (genAuthOutput_join g s) = Panic"
  by (simp add: genAuthOutput_join_def rollback_return_def)

lemma provider_sign_in_issue:
  "CreateFromGoogleProvider lv serv i w = (Return (Inr g), w') \<or>
   CreateFromFacebookProvider lv serv i w = (Return (Inr g), w') \<Longrightarrow>
   gai_db g = None \<and> tx w' = Some Open \<and> committed w' = committed w"
  by (auto simp add: CreateFromGoogleProvider_def CreateFromFacebookProvider_def Db_Begin_def
        log_call_def Let_def split: if_splits dest!: createFromExternal_issue)

text \<open>
  C6 (code defect). The claim: the steps of a Google or Facebook sign-in run in order
  up to credential issuance, and a failure at any step rolls back the transaction
  opened at the start of the flow and returns an error at once. This holds up to
  account resolution. Credential issuance, though, is entered without the
  transaction: whenever a sign-in gets that far, the handle passed is nil, and in
  every state that the issuance can reach the transaction of the flow is still open,
  nothing is committed and no result or error has been returned; the lines after
  \<^verbatim>\<open>wg.Wait()\<close> could only panic on the nil handle.
\<close>

theorem provider_sign_in_issuance_has_no_transaction:
  "CreateFromGoogleProvider lv serv i w = (Return (Inr g), w') \<or>
   CreateFromFacebookProvider lv serv i w = (Return (Inr g), w') \<Longrightarrow>
   genAuthOutput_reaches serv g w' s \<Longrightarrow>
   gai_db g = None \<and> tx (g_world s) = Some Open \<and> committed (g_world s) = committed w \<and>
   result s = None \<and> fst (genAuthOutput_join g s) = Panic"
  using provider_sign_in_issue [of lv serv i w g w'] gen_invariant [of serv g w' s]
    genAuthOutput_join_nil_db [of g s]
  by simp

text \<open>
  The witness: a Google sign-in on an empty store where every collaborator succeeds.
  The account and its identity are created in the transaction, issuance is entered
  with a nil handle, both tokens are produced, and the caller waits: the transaction
  is open, the committed store is empty, and there is no result.
\<close>

theorem provider_sign_in_issuance_has_no_transaction_witness:
  "CreateFromGoogleProvider PerLoop ok_service \<lparr>Code = ''c'', OriginUrl = ''u''\<rparr>
     (world_of empty_store) =
     (Return (Inr \<lparr>gai_db = None, gai_accountId = ''A1'', gai_isFirstAccess = True,
                    gai_refresh = True\<rparr>),
      \<lparr>committed = empty_store,
       working = empty_store
         \<lparr>accounts := [\<lparr>acc_Id = ''A1'', acc_Email = Some ''a@x.com'', acc_Phone = None\<rparr>],
          identities := [\<lparr>AccountId = ''A1'', ProviderId = ''g1'', ProviderType = ''GOOGLE'',
                          Email = ''a@x.com''\<rparr>]\<rparr>,
       tx = Some Open,
       calls = [Call_Begin, Call_ExchangeCode, Call_HasRequiredScopes, Call_GetUserData,
                Call_GetManyByProvider, Call_AccountCreate]\<rparr>) \<and>
   genAuthOutput_reaches ok_service
     \<lparr>gai_db = None, gai_accountId = ''A1'', gai_isFirstAccess = True, gai_refresh = True\<rparr>
     \<lparr>committed = empty_store,
      working = empty_store
        \<lparr>accounts := [\<lparr>acc_Id = ''A1'', acc_Email = Some ''a@x.com'', acc_Phone = None\<rparr>],
         identities := [\<lparr>AccountId = ''A1'', ProviderId = ''g1'', ProviderType = ''GOOGLE'',
                         Email = ''a@x.com''\<rparr>]\<rparr>,
      tx = Some Open,
      calls = [Call_Begin, Call_ExchangeCode, Call_HasRequiredScopes, Call_GetUserData,
               Call_GetManyByProvider, Call_AccountCreate]\<rparr>
     \<lparr>pc = AtWait, wg = 2, deferred = 2, refresh_task = Finished, access_task = Finished,
      refreshToken = Some \<lparr>crt_RefreshToken = ''rt''\<rparr>,
      accessToken = Some \<lparr>gao_AccessToken = ''at'', gao_ExpiresAt = 200\<rparr>, err = False,
      g_world =
        \<lparr>committed = empty_store,
         working = empty_store
           \<lparr>accounts := [\<lparr>acc_Id = ''A1'', acc_Email = Some ''a@x.com'', acc_Phone = None\<rparr>],
            identities := [\<lparr>AccountId = ''A1'', ProviderId = ''g1'', ProviderType = ''GOOGLE'',
                            Email = ''a@x.com''\<rparr>]\<rparr>,
         tx = Some Open,
         calls = [Call_Begin, Call_ExchangeCode, Call_HasRequiredScopes, Call_GetUserData,
                  Call_GetManyByProvider, Call_AccountCreate, Call_RefreshTokenCreate,
                  Call_GenAccess]\<rparr>,
      result = None\<rparr> \<and>
   accounts (committed (world_of empty_store)) = []"
proof -
  let ?g = "\<lparr>gai_db = None, gai_accountId = ''A1'', gai_isFirstAccess = True,
             gai_refresh = True\<rparr>"
  let ?w' = "\<lparr>committed = empty_store,
      working = empty_store
        \<lparr>accounts := [\<lparr>acc_Id = ''A1'', acc_Email = Some ''a@x.com'', acc_Phone = None\<rparr>],
         identities := [\<lparr>AccountId = ''A1'', ProviderId = ''g1'', ProviderType = ''GOOGLE'',
                         Email = ''a@x.com''\<rparr>]\<rparr>,
      tx = Some Open,
      calls = [Call_Begin, Call_ExchangeCode, Call_HasRequiredScopes, Call_GetUserData,
               Call_GetManyByProvider, Call_AccountCreate]\<rparr>"
  let ?s = "\<lparr>pc = AtWait, wg = 2, deferred = 2, refresh_task = Finished,
      access_task = Finished,
      refreshToken = Some \<lparr>crt_RefreshToken = ''rt''\<rparr>,
      accessToken = Some \<lparr>gao_AccessToken = ''at'', gao_ExpiresAt = 200\<rparr>, err = False,
      g_world = ?w'\<lparr>calls := calls ?w' @ [Call_RefreshTokenCreate, Call_GenAccess]\<rparr>,
      result = None\<rparr>"
  have run: "CreateFromGoogleProvider PerLoop ok_service \<lparr>Code = ''c'', OriginUrl = ''u''\<rparr>
               (world_of empty_store) = (Return (Inr ?g), ?w')"
    by (simp add: CreateFromGoogleProvider_def createFromExternal_def store_ops world_ops
          ok_service_def ok_adapter_def world_of_def empty_store_def opt_string_def
          opt_phone_def)
  have r: "genAuthOutput_reaches ok_service ?g ?w' ?s"
    using gen_blocked_reachable [of ok_service ?g ?w']
    by (simp add: ok_service_def log_call_def)
  from run r provider_sign_in_issuance_has_no_transaction [OF disjI1 [OF run] r]
  show ?thesis by (simp add: world_of_def empty_store_def)
qed

end
